theory Spec2Isabelle
  imports Complex_Main
begin

unbundle bit_operations_syntax

section \<open>Data model of \<open>Util_subset.c\<close>\<close>

text \<open>
  The header \<open>Home.h\<close> is not part of the sources, so the structures are reconstructed
  from the way \<open>Util_subset.c\<close> uses their fields. A C \<open>int\<close> that is only compared
  (a tag, a cycle, an arm index below \<open>numNbrs\<close>) is an integer, and so are the counters
  of the operation list, which the states considered keep within the range of \<open>int\<close>;
  the one \<open>int\<close> that the code computes beyond its range, the byte count of
  \<open>ExtendOpList\<close>, wraps as a 32-bit \<open>int\<close> does. A C array reached through a
  pointer field is a list whose length is the allocated extent, and a \<open>Node_t *\<close> is an
  optional address (\<open>None\<close> is \<open>NULL\<close>) into a store of nodes.

  The structures are parametric in the type \<open>'r\<close> that stands for \<open>real8\<close>. The code
  that adds forces is modelled for every such type with a zero and an addition, of which
  no law is assumed: the doubles of the machine, modelled below as \<open>double\<close>, are one
  instance, the real numbers another. The glide-plane geometry (square roots, \<open>rint\<close>,
  the threshold test) is modelled on real numbers.
\<close>

type_synonym real8 = real
type_synonym vec3 = "real8 \<times> real8 \<times> real8"
type_synonym addr = nat

record Tag_t =
  domainID :: int
  index :: int

text \<open>
  The operation classes are macros of the missing header. The \<open>switch\<close> of
  \<open>DomainOwnsSeg\<close> names three of them; \<open>OPCLASS_invalid v\<close> stands for any other
  \<open>int\<close> value \<open>v\<close>.
\<close>

datatype opClass_t =
  OPCLASS_SEPARATION | OPCLASS_COLLISION | OPCLASS_REMESH | OPCLASS_invalid int

text \<open>The operation types of the missing enumeration \<open>OpType_t\<close>; the file uses two.\<close>

datatype OpType_t = RESET_SEG_FORCES | MARK_FORCES_OBSOLETE | OpType_other nat

text \<open>The boundary types; the file only tests for \<open>Periodic\<close>.\<close>

datatype BoundType_t = Periodic | NonPeriodic nat

record 'r Param_t =
  xBoundType :: BoundType_t
  yBoundType :: BoundType_t
  zBoundType :: BoundType_t
  Lx :: 'r
  Ly :: 'r
  Lz :: 'r
  invLx :: 'r
  invLy :: 'r
  invLz :: 'r

text \<open>
  A node: its tag, position, velocity, total force, the arm count \<open>numNbrs\<close> and the
  per-arm arrays, and the flag word. The position fields \<open>x, y, z\<close> of the C structure
  are called \<open>node_x, node_y, node_z\<close> here.
\<close>

record 'r Node_t =
  myTag :: Tag_t
  node_x :: 'r
  node_y :: 'r
  node_z :: 'r
  vX :: 'r
  vY :: 'r
  vZ :: 'r
  fX :: 'r
  fY :: 'r
  fZ :: 'r
  numNbrs :: int
  nbrTag :: "Tag_t list"
  burgX :: "'r list"
  burgY :: "'r list"
  burgZ :: "'r list"
  nx :: "'r list"
  ny :: "'r list"
  nz :: "'r list"
  armfx :: "'r list"
  armfy :: "'r list"
  armfz :: "'r list"
  flags :: int

text \<open>
  The store of nodes: every pointer that is not \<open>NULL\<close> points at a node, and two
  pointers are the same node exactly when their addresses are equal.
\<close>

type_synonym 'r heap = "addr \<Rightarrow> 'r Node_t"

text \<open>An entry of the operation list; the C fields carry no \<open>op_\<close> prefix.\<close>

record 'r Operate_t =
  op_type :: OpType_t
  op_dom1 :: int
  op_idx1 :: int
  op_dom2 :: int
  op_idx2 :: int
  op_dom3 :: int
  op_idx3 :: int
  op_bx :: 'r
  op_by :: 'r
  op_bz :: 'r
  op_x :: 'r
  op_y :: 'r
  op_z :: 'r
  op_nx :: 'r
  op_ny :: 'r
  op_nz :: 'r

text \<open>The cache of a remote domain: its high-water mark and its table of node pointers.\<close>

record RemoteDomain_t =
  maxTagIndex :: int
  remote_nodeKeys :: "addr option list"

text \<open>
  The fields of \<open>Home_t\<close> that the file reads or writes. The pointer \<open>opList\<close> is
  \<open>None\<close> when it is \<open>NULL\<close>; a slot of the buffer it points at is \<open>None\<close> while
  the memory that \<open>malloc\<close> or \<open>realloc\<close> returned for it has not been written.
\<close>

record 'r Home_t =
  myDomain :: int
  cycle :: int
  newNodeKeyPtr :: int
  nodeKeys :: "addr option list"
  remoteDomainKeys :: "RemoteDomain_t option list"
  param :: "'r Param_t"
  opList :: "'r Operate_t option list option"
  OpCount :: int
  OpListLen :: int
  rcvOpCount :: int
  rcvOpList :: "'r Operate_t list option"

text \<open>
  What the missing headers, the platform and the external collaborators supply: the block
  size of the operation list, the flag bit \<open>NODE_RESET_FORCES\<close>, the size in bytes of an
  \<open>Operate_t\<close>, the allocator (\<open>can_alloc env n\<close> says whether \<open>malloc\<close> and
  \<open>realloc\<close> grant a request of \<open>n\<close> bytes), and the two glide-plane functions.
  \<open>FindPreciseGlidePlane (home, burg, lineDir, newPlane)\<close> and
  \<open>PickScrewGlidePlane (home, burg, newPlane)\<close> return their result through
  \<open>newPlane\<close>; they are taken to compute a vector from their arguments and to leave the
  nodes alone.
\<close>

record Env_t =
  OpBlock_Count :: int
  NODE_RESET_FORCES :: int
  sizeof_Operate_t :: int
  can_alloc :: "int \<Rightarrow> bool"
  FindPreciseGlidePlane :: "real8 Home_t \<Rightarrow> vec3 \<Rightarrow> vec3 \<Rightarrow> vec3"
  PickScrewGlidePlane :: "real8 Home_t \<Rightarrow> vec3 \<Rightarrow> vec3 \<Rightarrow> vec3"

section \<open>Errors, diagnostics and array accesses\<close>

text \<open>
  \<open>Fatal\<close> prints a message and ends the run: the message is kept with its arguments.
  An access outside the extent of an array and a dereference of \<open>NULL\<close> are undefined in
  C; the model stops with an error of its own there.
\<close>

datatype fatal_msg =
  Invalid_opClass int
  | Invalid_tag int int

datatype error = Fatal fatal_msg | OutOfBounds | NullDeref

definition arr_read :: "'a list \<Rightarrow> int \<Rightarrow> error + 'a" where
  "arr_read a i = (if 0 \<le> i \<and> i < int (length a) then Inr (a ! nat i) else Inl OutOfBounds)"

definition arr_write :: "'a list \<Rightarrow> int \<Rightarrow> 'a \<Rightarrow> error + 'a list" where
  "arr_write a i v =
     (if 0 \<le> i \<and> i < int (length a) then Inr (a[nat i := v]) else Inl OutOfBounds)"

definition bindE :: "error + 'a \<Rightarrow> ('a \<Rightarrow> error + 'b) \<Rightarrow> error + 'b" where
  "bindE m f = (case m of Inl e \<Rightarrow> Inl e | Inr v \<Rightarrow> f v)"

definition c_bool :: "bool \<Rightarrow> int" where
  "c_bool b = (if b then 1 else 0)"

section \<open>Ownership arbitration\<close>

text \<open>
  \<open>DomainOwnsSeg\<close>: the early return for a segment inside one domain comes before the
  \<open>switch\<close>; the default branch calls \<open>Fatal\<close>.
\<close>

definition DomainOwnsSeg :: "'r Home_t \<Rightarrow> opClass_t \<Rightarrow> int \<Rightarrow> Tag_t \<Rightarrow> error + int" where
  "DomainOwnsSeg home opClass thisDomain endTag =
     (if thisDomain = domainID endTag then Inr 1
      else case opClass of
        OPCLASS_SEPARATION \<Rightarrow>
          (if cycle home AND 1 \<noteq> 0 then Inr (c_bool (thisDomain > domainID endTag))
           else Inr (c_bool (thisDomain < domainID endTag)))
      | OPCLASS_COLLISION \<Rightarrow>
          (if cycle home AND 1 \<noteq> 0 then Inr (c_bool (thisDomain > domainID endTag))
           else Inr (c_bool (thisDomain < domainID endTag)))
      | OPCLASS_REMESH \<Rightarrow>
          (if cycle home AND 1 \<noteq> 0 then Inr (c_bool (thisDomain < domainID endTag))
           else Inr (c_bool (thisDomain > domainID endTag)))
      | OPCLASS_invalid v \<Rightarrow> Inl (Fatal (Invalid_opClass v)))"

section \<open>Connectivity queries\<close>

text \<open>
  The search loop of \<open>Connected\<close>, from index \<open>i\<close>: the pair is the returned value and
  the arm index stored through \<open>armID\<close>.
\<close>

function Connected_loop :: "'r Node_t \<Rightarrow> int \<Rightarrow> int \<Rightarrow> int \<Rightarrow> error + (int \<times> int)" where
  "Connected_loop node1 dom2 idx2 i =
     (if i < numNbrs node1 then
        (case arr_read (nbrTag node1) i of
           Inl e \<Rightarrow> Inl e
         | Inr t \<Rightarrow>
             if dom2 = domainID t \<and> idx2 = index t then Inr (1, i)
             else Connected_loop node1 dom2 idx2 (i + 1))
      else Inr (0, -1))"
  by pat_completeness auto
termination
  by (relation "measure (\<lambda>(node1, dom2, idx2, i). nat (numNbrs node1 - i))") auto

definition Connected :: "'r heap \<Rightarrow> addr option \<Rightarrow> addr option \<Rightarrow> error + (int \<times> int)" where
  "Connected hp node1 node2 =
     (case node1 of
        None \<Rightarrow> Inr (0, -1)
      | Some a1 \<Rightarrow>
          (case node2 of
             None \<Rightarrow> Inr (0, -1)
           | Some a2 \<Rightarrow>
               Connected_loop (hp a1) (domainID (myTag (hp a2))) (index (myTag (hp a2))) 0))"

function GetArmID_loop :: "'r Node_t \<Rightarrow> int \<Rightarrow> int \<Rightarrow> int \<Rightarrow> error + int" where
  "GetArmID_loop node1 domID idx i =
     (if i < numNbrs node1 then
        (case arr_read (nbrTag node1) i of
           Inl e \<Rightarrow> Inl e
         | Inr t \<Rightarrow>
             if domID = domainID t \<and> idx = index t then Inr i
             else GetArmID_loop node1 domID idx (i + 1))
      else Inr (-1))"
  by pat_completeness auto
termination
  by (relation "measure (\<lambda>(node1, domID, idx, i). nat (numNbrs node1 - i))") auto

definition GetArmID :: "'r Home_t \<Rightarrow> 'r heap \<Rightarrow> addr option \<Rightarrow> addr option \<Rightarrow> error + int" where
  "GetArmID home hp node1 node2 =
     (case node1 of
        None \<Rightarrow> Inr (-1)
      | Some a1 \<Rightarrow>
          (case node2 of
             None \<Rightarrow> Inr (-1)
           | Some a2 \<Rightarrow>
               GetArmID_loop (hp a1) (domainID (myTag (hp a2))) (index (myTag (hp a2))) 0))"

section \<open>Tag addressing\<close>

definition GetNodeFromTag :: "'r Home_t \<Rightarrow> Tag_t \<Rightarrow> error + addr option" where
  "GetNodeFromTag home tag =
     (if domainID tag < 0 \<or> index tag < 0 then
        Inl (Fatal (Invalid_tag (domainID tag) (index tag)))
      else if domainID tag = myDomain home then
        (if index tag \<ge> newNodeKeyPtr home then Inr None
         else bindE (arr_read (nodeKeys home) (index tag)) (\<lambda>node.
           if node = None then Inr None else Inr node))
      else
        bindE (arr_read (remoteDomainKeys home) (domainID tag)) (\<lambda>remDom.
          case remDom of
            None \<Rightarrow> Inr None
          | Some rd \<Rightarrow>
              if index tag \<ge> maxTagIndex rd then Inr None
              else arr_read (remote_nodeKeys rd) (index tag)))"

text \<open>
  What \<open>printf\<close> and \<open>PrintNode\<close> write: the message of \<open>GetNeighborNode\<close> with its
  three arguments, and the dump of a node.
\<close>

datatype 'r diag =
  GetNeighborNode_returning_NULL int int int
  | PrintNode_dump "'r Node_t"

definition PrintNode :: "'r heap \<Rightarrow> addr option \<Rightarrow> 'r diag list" where
  "PrintNode hp node = (case node of None \<Rightarrow> [] | Some a \<Rightarrow> [PrintNode_dump (hp a)])"

text \<open>
  \<open>GetNeighborNode\<close>, the branch that is compiled (\<open>#else\<close>): \<open>j\<close> counts the valid
  arms seen so far; the result is the returned pointer and what was printed.
\<close>

function GetNeighborNode_loop ::
  "'r Home_t \<Rightarrow> 'r heap \<Rightarrow> addr \<Rightarrow> int \<Rightarrow> int \<Rightarrow> int \<Rightarrow>
   error + (addr option \<times> 'r diag list)" where
  "GetNeighborNode_loop home hp a n i j =
     (if i < numNbrs (hp a) then
        (case arr_read (nbrTag (hp a)) i of
           Inl e \<Rightarrow> Inl e
         | Inr t \<Rightarrow>
             (let j' = (if domainID t \<ge> 0 then j + 1 else j) in
              if j' = n then
                (case GetNodeFromTag home t of
                   Inl e \<Rightarrow> Inl e
                 | Inr neighbor \<Rightarrow> Inr (neighbor, []))
              else GetNeighborNode_loop home hp a n (i + 1) j'))
      else
        Inr (None,
          GetNeighborNode_returning_NULL
            (domainID (myTag (hp a))) (index (myTag (hp a))) n # PrintNode hp (Some a)))"
  by pat_completeness auto
termination
  by (relation "measure (\<lambda>(home, hp, a, n, i, j). nat (numNbrs (hp a) - i))") auto

definition GetNeighborNode ::
  "'r Home_t \<Rightarrow> 'r heap \<Rightarrow> addr option \<Rightarrow> int \<Rightarrow> error + (addr option \<times> 'r diag list)" where
  "GetNeighborNode home hp node n =
     (case node of
        None \<Rightarrow> Inl NullDeref
      | Some a \<Rightarrow> GetNeighborNode_loop home hp a n 0 (-1))"

section \<open>Operation list\<close>









section \<open>Segment forces\<close>




section \<open>Geometry\<close>

text \<open>\<open>rint\<close> of the C library in the default rounding mode: to the nearest integer, ties to even.\<close>

definition rint :: "real8 \<Rightarrow> real8" where
  "rint v =
     (let f = floor v; d = v - of_int f in
      if d < 1 / 2 then of_int f
      else if d > 1 / 2 then of_int (f + 1)
      else if even f then of_int f else of_int (f + 1))"

definition Normalize :: "vec3 \<Rightarrow> vec3" where
  "Normalize v =
     (case v of (ax, ay, az) \<Rightarrow>
        (let a2 = ax * ax + ay * ay + az * az in
         if a2 > 0 then (let a = sqrt a2 in (ax / a, ay / a, az / a)) else (ax, ay, az)))"

definition NormalizeVec :: "vec3 \<Rightarrow> vec3" where
  "NormalizeVec vec =
     (case vec of (v0, v1, v2) \<Rightarrow>
        (let a2 = v0 * v0 + v1 * v1 + v2 * v2 in
         if a2 > 0 then (let a = sqrt a2 in (v0 / a, v1 / a, v2 / a)) else (v0, v1, v2)))"

definition ZImage :: "real8 Param_t \<Rightarrow> vec3 \<Rightarrow> vec3" where
  "ZImage prm v =
     (case v of (vx, vy, vz) \<Rightarrow>
        (if xBoundType prm = Periodic then vx - rint (vx * invLx prm) * Lx prm else vx,
         if yBoundType prm = Periodic then vy - rint (vy * invLy prm) * Ly prm else vy,
         if zBoundType prm = Periodic then vz - rint (vz * invLz prm) * Lz prm else vz))"

text \<open>
  Modelled from the spec: the macro \<open>DotProduct\<close> of the missing header, the dot product
  of two three-element vectors (the spec's "self dot-product" of the derived normal).
\<close>

definition DotProduct :: "vec3 \<Rightarrow> vec3 \<Rightarrow> real8" where
  "DotProduct u v =
     (case u of (u0, u1, u2) \<Rightarrow> case v of (v0, v1, v2) \<Rightarrow> u0 * v0 + u1 * v1 + u2 * v2)"

section \<open>Glide planes\<close>

text \<open>
  The three stores \<open>node->nx[i] = ...; node->ny[i] = ...; node->nz[i] = ...\<close> into the
  node at address \<open>a\<close>.
\<close>

definition store_plane :: "real8 heap \<Rightarrow> addr \<Rightarrow> int \<Rightarrow> vec3 \<Rightarrow> error + real8 heap" where
  "store_plane hp a i newPlane =
     (case newPlane of (pX, pY, pZ) \<Rightarrow>
        bindE (arr_write (nx (hp a)) i pX) (\<lambda>l1.
        bindE (arr_write (ny (hp a)) i pY) (\<lambda>l2.
        bindE (arr_write (nz (hp a)) i pZ) (\<lambda>l3.
          Inr (hp(a := (hp a)\<lparr>nx := l1, ny := l2, nz := l3\<rparr>))))))"

text \<open>The six stores at the end of \<open>RecalcSegGlidePlane\<close>: node1 first, then node2.\<close>

definition store_both ::
  "real8 heap \<Rightarrow> addr \<Rightarrow> int \<Rightarrow> addr \<Rightarrow> int \<Rightarrow> vec3 \<Rightarrow> error + real8 heap" where
  "store_both hp a1 node1SegID a2 node2SegID newPlane =
     bindE (store_plane hp a1 node1SegID newPlane) (\<lambda>hp1.
       store_plane hp1 a2 node2SegID newPlane)"

text \<open>
  \<open>RecalcSegGlidePlane\<close>: each \<open>return\<close> before the stores gives the store back as it
  was. The threshold \<open>1.0e-03\<close> is the real number 1/1000.
\<close>

definition RecalcSegGlidePlane ::
  "Env_t \<Rightarrow> real8 Home_t \<Rightarrow> real8 heap \<Rightarrow> addr option \<Rightarrow> addr option \<Rightarrow> int \<Rightarrow>
   error + real8 heap" where
  "RecalcSegGlidePlane env home hp node1 node2 ignoreIfScrew =
     (case node1 of
        None \<Rightarrow> Inr hp
      | Some a1 \<Rightarrow>
     (case node2 of
        None \<Rightarrow> Inr hp
      | Some a2 \<Rightarrow>
          if a1 = a2 then Inr hp
          else
            bindE (Connected hp node1 node2) (\<lambda>(conn, node1SegID).
            if conn = 0 then Inr hp
            else
              bindE (GetArmID home hp node2 node1) (\<lambda>node2SegID.
              bindE (arr_read (burgX (hp a1)) node1SegID) (\<lambda>bX.
              bindE (arr_read (burgY (hp a1)) node1SegID) (\<lambda>bY.
              bindE (arr_read (burgZ (hp a1)) node1SegID) (\<lambda>bZ.
                (let burg = (bX, bY, bZ);
                     lineDir0 = (node_x (hp a2) - node_x (hp a1),
                                 node_y (hp a2) - node_y (hp a1),
                                 node_z (hp a2) - node_z (hp a1));
                     lineDir = NormalizeVec (ZImage (param home) lineDir0);
                     newPlane0 = FindPreciseGlidePlane env home burg lineDir
                 in
                 if DotProduct newPlane0 newPlane0 < 1 / 1000 then
                   (if ignoreIfScrew \<noteq> 0 then Inr hp
                    else
                      store_both hp a1 node1SegID a2 node2SegID
                        (Normalize (PickScrewGlidePlane env home burg newPlane0)))
                 else
                   store_both hp a1 node1SegID a2 node2SegID (Normalize newPlane0)))))))))"

section \<open>Consistency of the structures\<close>

text \<open>
  The code indexes the arm arrays of a node up to \<open>numNbrs\<close>, the local key table up to
  \<open>newNodeKeyPtr\<close>, the table of a remote domain up to \<open>maxTagIndex\<close>, and the operation
  list up to \<open>OpListLen\<close>, and checks none of these against an allocated extent. The
  predicates below say that the counters lie within the extents.
\<close>

definition wf_Node :: "'r Node_t \<Rightarrow> bool" where
  "wf_Node n =
     (numNbrs n \<le> int (length (nbrTag n)) \<and>
      numNbrs n \<le> int (length (burgX n)) \<and>
      numNbrs n \<le> int (length (burgY n)) \<and>
      numNbrs n \<le> int (length (burgZ n)) \<and>
      numNbrs n \<le> int (length (nx n)) \<and>
      numNbrs n \<le> int (length (ny n)) \<and>
      numNbrs n \<le> int (length (nz n)) \<and>
      numNbrs n \<le> int (length (armfx n)) \<and>
      numNbrs n \<le> int (length (armfy n)) \<and>
      numNbrs n \<le> int (length (armfz n)))"

definition wf_RemoteDomain :: "RemoteDomain_t option \<Rightarrow> bool" where
  "wf_RemoteDomain r =
     (case r of None \<Rightarrow> True | Some rd \<Rightarrow> maxTagIndex rd \<le> int (length (remote_nodeKeys rd)))"

definition wf_tables :: "'r Home_t \<Rightarrow> bool" where
  "wf_tables home =
     (newNodeKeyPtr home \<le> int (length (nodeKeys home)) \<and>
      list_all wf_RemoteDomain (remoteDomainKeys home))"

text \<open>A tag names a domain of the run: the local one or one with a slot in the remote table.\<close>

definition tag_in_tables :: "'r Home_t \<Rightarrow> Tag_t \<Rightarrow> bool" where
  "tag_in_tables home tag =
     (domainID tag = myDomain home \<or> domainID tag < int (length (remoteDomainKeys home)))"




text \<open>The arm \<open>i\<close> of a node ends at a tag; a tag is valid when its domain is not negative.\<close>

definition arm_to :: "'r Node_t \<Rightarrow> int \<Rightarrow> Tag_t \<Rightarrow> bool" where
  "arm_to n i t =
     (0 \<le> i \<and> i < numNbrs n \<and>
      domainID (nbrTag n ! nat i) = domainID t \<and> index (nbrTag n ! nat i) = index t)"

definition valid_nbrs :: "'r Node_t \<Rightarrow> Tag_t list" where
  "valid_nbrs n = filter (\<lambda>t. 0 \<le> domainID t) (take (nat (numNbrs n)) (nbrTag n))"

text \<open>
  The normal that \<open>RecalcSegGlidePlane\<close> derives for arm \<open>i\<close> of the node at \<open>a1\<close>,
  before the threshold test: the value of \<open>newPlane\<close> after \<open>FindPreciseGlidePlane\<close>.
\<close>

definition derived_plane ::
  "Env_t \<Rightarrow> real8 Home_t \<Rightarrow> real8 heap \<Rightarrow> addr \<Rightarrow> addr \<Rightarrow> int \<Rightarrow> vec3" where
  "derived_plane env home hp a1 a2 i =
     FindPreciseGlidePlane env home
       (burgX (hp a1) ! nat i, burgY (hp a1) ! nat i, burgZ (hp a1) ! nat i)
       (NormalizeVec (ZImage (param home)
          (node_x (hp a2) - node_x (hp a1),
           node_y (hp a2) - node_y (hp a1),
           node_z (hp a2) - node_z (hp a1))))"

definition is_screw :: "Env_t \<Rightarrow> real8 Home_t \<Rightarrow> real8 heap \<Rightarrow> addr \<Rightarrow> addr \<Rightarrow> int \<Rightarrow> bool" where
  "is_screw env home hp a1 a2 i =
     (DotProduct (derived_plane env home hp a1 a2 i) (derived_plane env home hp a1 a2 i) < 1 / 1000)"

section \<open>The doubles of the machine\<close>

text \<open>
  A \<open>real8\<close> of the machine is an IEEE 754 binary64 number: a real number with a 53-bit
  significand and an exponent from -1022 to 1023, an infinity, or a NaN; \<open>Finite x\<close> is
  a double when \<open>x\<close> is such a number. The two zeros are one value here, and so are all
  NaNs. The sum of two doubles is the real sum rounded to the nearest double, ties to the
  even significand; \<open>ulp v\<close> is the distance of the doubles around \<open>v\<close>, and a rounded
  sum beyond the largest double is an infinity.
\<close>

datatype double = Finite real | PlusInf | MinusInf | NaN

definition binade :: "real \<Rightarrow> int" where
  "binade v = max (\<lfloor>log 2 \<bar>v\<bar>\<rfloor>) (-1022)"

definition ulp :: "real \<Rightarrow> real" where
  "ulp v = (let e = binade v in if 52 \<le> e then 2 ^ nat (e - 52) else 1 / 2 ^ nat (52 - e))"

definition round_to_double :: "real \<Rightarrow> double" where
  "round_to_double v =
     (if v = 0 then Finite 0
      else
        (let r = rint (v / ulp v) * ulp v in
         if 2 ^ 1024 \<le> \<bar>r\<bar> then (if 0 < v then PlusInf else MinusInf) else Finite r))"

fun double_add :: "double \<Rightarrow> double \<Rightarrow> double" where
  "double_add NaN b = NaN"
| "double_add a NaN = NaN"
| "double_add PlusInf MinusInf = NaN"
| "double_add MinusInf PlusInf = NaN"
| "double_add PlusInf b = PlusInf"
| "double_add a PlusInf = PlusInf"
| "double_add MinusInf b = MinusInf"
| "double_add a MinusInf = MinusInf"
| "double_add (Finite x) (Finite y) = round_to_double (x + y)"

instantiation double :: "{zero, plus}"
begin

definition zero_double :: double where
  "zero_double = Finite 0"

definition plus_double :: "double \<Rightarrow> double \<Rightarrow> double" where
  "plus_double a b = double_add a b"

instance ..

end

section \<open>Example inputs\<close>

text \<open>
  The cross product of the file, used as the glide-plane law of the example environment:
  a Burgers vector parallel to the line direction gives the zero vector, a screw segment.
  An \<open>Operate_t\<close> of seven 4-byte integers and nine 8-byte reals takes 104 bytes, and
  the allocator grants every request below \<open>2 ^ 47\<close> bytes.
\<close>

definition cross :: "vec3 \<Rightarrow> vec3 \<Rightarrow> vec3" where
  "cross u v =
     (case u of (a0, a1, a2) \<Rightarrow> case v of (b0, b1, b2) \<Rightarrow>
        (a1 * b2 - a2 * b1, a2 * b0 - a0 * b2, a0 * b1 - a1 * b0))"

definition env_ex :: Env_t where
  "env_ex = \<lparr>OpBlock_Count = 2, NODE_RESET_FORCES = 1,
              sizeof_Operate_t = 104, can_alloc = (\<lambda>n. n < 2 ^ 47),
              FindPreciseGlidePlane = (\<lambda>home burg lineDir. cross burg lineDir),
              PickScrewGlidePlane = (\<lambda>home burg newPlane. (0, 0, 1))\<rparr>"

definition param_ex :: "real8 Param_t" where
  "param_ex = \<lparr>xBoundType = NonPeriodic 0, yBoundType = NonPeriodic 0,
                zBoundType = NonPeriodic 0, Lx = 10, Ly = 10, Lz = 10,
                invLx = 1 / 10, invLy = 1 / 10, invLz = 1 / 10\<rparr>"

text \<open>
  Domain 0 at cycle \<open>c\<close>, in a run of three domains: local nodes with index 2 and 3 at
  the addresses 12 and 13, a cache of domain 1 that holds the node with index 7 at the
  address 17, and no cache of domain 2. The operation list is not allocated yet.
\<close>

definition home_ex :: "int \<Rightarrow> real8 Home_t" where
  "home_ex c =
     \<lparr>myDomain = 0, cycle = c, newNodeKeyPtr = 4,
      nodeKeys = [None, None, Some 12, Some 13],
      remoteDomainKeys =
        [None,
         Some \<lparr>maxTagIndex = 8,
               remote_nodeKeys = [None, None, None, None, None, None, None, Some 17]\<rparr>,
         None],
      param = param_ex, opList = None, OpCount = 0, OpListLen = 0,
      rcvOpCount = 0, rcvOpList = None\<rparr>"

text \<open>
  Node A is the node (0,3) of the spec's scenario: one arm to (1,7) with force (1,2,3);
  node B is the node (1,7) with the arm back. Their Burgers vector lies along the line
  from A to B.
\<close>

definition nodeA_ex :: "real8 Node_t" where
  "nodeA_ex =
     \<lparr>myTag = \<lparr>domainID = 0, index = 3\<rparr>, node_x = 0, node_y = 0, node_z = 0,
      vX = 0, vY = 0, vZ = 0, fX = 1, fY = 2, fZ = 3, numNbrs = 1,
      nbrTag = [\<lparr>domainID = 1, index = 7\<rparr>],
      burgX = [1], burgY = [0], burgZ = [0], nx = [0], ny = [1], nz = [0],
      armfx = [1], armfy = [2], armfz = [3], flags = 0\<rparr>"

definition nodeB_ex :: "real8 Node_t" where
  "nodeB_ex =
     \<lparr>myTag = \<lparr>domainID = 1, index = 7\<rparr>, node_x = 1, node_y = 0, node_z = 0,
      vX = 0, vY = 0, vZ = 0, fX = -1, fY = -2, fZ = -3, numNbrs = 1,
      nbrTag = [\<lparr>domainID = 0, index = 3\<rparr>],
      burgX = [-1], burgY = [0], burgZ = [0], nx = [0], ny = [1], nz = [0],
      armfx = [-1], armfy = [-2], armfz = [-3], flags = 0\<rparr>"

text \<open>
  Node C is the node (0,2): four arm slots, two of them invalidated, the valid ones ending
  at (1,7) and at (0,3). Node A has no arm back to it.
\<close>

definition nodeC_ex :: "real8 Node_t" where
  "nodeC_ex =
     \<lparr>myTag = \<lparr>domainID = 0, index = 2\<rparr>, node_x = 0, node_y = 1, node_z = 0,
      vX = 0, vY = 0, vZ = 0, fX = 0, fY = 0, fZ = 0, numNbrs = 4,
      nbrTag = [\<lparr>domainID = -1, index = -1\<rparr>, \<lparr>domainID = 1, index = 7\<rparr>,
                \<lparr>domainID = -1, index = -1\<rparr>, \<lparr>domainID = 0, index = 3\<rparr>],
      burgX = [0, 1, 0, 1], burgY = [0, 0, 0, 0], burgZ = [0, 0, 0, 0],
      nx = [0, 0, 0, 0], ny = [0, 0, 0, 0], nz = [0, 1, 0, 1],
      armfx = [0, 1, 0, -1], armfy = [0, 0, 0, 0], armfz = [0, 0, 0, 0], flags = 0\<rparr>"

definition heap_ex :: "real8 heap" where
  "heap_ex = (\<lambda>a. if a = 13 then nodeA_ex else if a = 17 then nodeB_ex else nodeC_ex)"








section \<open>Array accesses and the arm search\<close>

declare Connected_loop.simps [simp del]
declare GetArmID_loop.simps [simp del]
declare GetNeighborNode_loop.simps [simp del]

lemma arr_read_in: "0 \<le> i \<Longrightarrow> i < int (length a) \<Longrightarrow> arr_read a i = Inr (a ! nat i)"
  by (simp add: arr_read_def)

lemma arr_write_in:
  "0 \<le> i \<Longrightarrow> i < int (length a) \<Longrightarrow> arr_write a i v = Inr (a[nat i := v])"
  by (simp add: arr_write_def)

text \<open>
  The search loop from index \<open>k\<close> either stops at the first arm from \<open>k\<close> on that ends
  at the tag \<open>(d, x)\<close>, or finds none up to \<open>numNbrs\<close>.
\<close>

lemma Connected_loop_spec:
  assumes "numNbrs n \<le> int (length (nbrTag n))" and "0 \<le> k"
  shows "(\<exists>s. Connected_loop n d x k = Inr (1, s) \<and> k \<le> s \<and> s < numNbrs n \<and>
              d = domainID (nbrTag n ! nat s) \<and> x = index (nbrTag n ! nat s) \<and>
              (\<forall>i. k \<le> i \<and> i < s \<longrightarrow>
                 \<not> (d = domainID (nbrTag n ! nat i) \<and> x = index (nbrTag n ! nat i)))) \<or>
         (Connected_loop n d x k = Inr (0, -1) \<and>
              (\<forall>i. k \<le> i \<and> i < numNbrs n \<longrightarrow>
                 \<not> (d = domainID (nbrTag n ! nat i) \<and> x = index (nbrTag n ! nat i))))"
  using assms
proof (induction n d x k rule: Connected_loop.induct)
  case (1 node1 dom2 idx2 i)
  let ?hit = "\<lambda>j. dom2 = domainID (nbrTag node1 ! nat j) \<and> idx2 = index (nbrTag node1 ! nat j)"
  show ?case
  proof (cases "i < numNbrs node1")
    case False
    then show ?thesis
      by (subst Connected_loop.simps) simp
  next
    case True
    with 1 have rd: "arr_read (nbrTag node1) i = Inr (nbrTag node1 ! nat i)"
      by (simp add: arr_read_in)
    show ?thesis
    proof (cases "?hit i")
      case m: True
      have "Connected_loop node1 dom2 idx2 i = Inr (1, i)"
        using True rd m by (subst Connected_loop.simps) simp
      with True m show ?thesis by auto
    next
      case m: False
      have eq: "Connected_loop node1 dom2 idx2 i = Connected_loop node1 dom2 idx2 (i + 1)"
        using True rd m by (subst Connected_loop.simps) auto
      have step: "\<And>j. i \<le> j \<Longrightarrow> j = i \<or> i + 1 \<le> j" by arith
      from "1.IH"[OF True rd m] "1.prems"
      have IH: "(\<exists>s. Connected_loop node1 dom2 idx2 (i + 1) = Inr (1, s) \<and> i + 1 \<le> s \<and>
                    s < numNbrs node1 \<and> ?hit s \<and> (\<forall>j. i + 1 \<le> j \<and> j < s \<longrightarrow> \<not> ?hit j)) \<or>
                (Connected_loop node1 dom2 idx2 (i + 1) = Inr (0, -1) \<and>
                    (\<forall>j. i + 1 \<le> j \<and> j < numNbrs node1 \<longrightarrow> \<not> ?hit j))"
        by simp
      then show ?thesis
      proof
        assume "\<exists>s. Connected_loop node1 dom2 idx2 (i + 1) = Inr (1, s) \<and> i + 1 \<le> s \<and>
                    s < numNbrs node1 \<and> ?hit s \<and> (\<forall>j. i + 1 \<le> j \<and> j < s \<longrightarrow> \<not> ?hit j)"
        then obtain s where s: "Connected_loop node1 dom2 idx2 (i + 1) = Inr (1, s)"
          "i + 1 \<le> s" "s < numNbrs node1" "?hit s" "\<forall>j. i + 1 \<le> j \<and> j < s \<longrightarrow> \<not> ?hit j"
          by blast
        have "\<forall>j. i \<le> j \<and> j < s \<longrightarrow> \<not> ?hit j"
          using s(5) m step by blast
        with s eq show ?thesis by auto
      next
        assume a: "Connected_loop node1 dom2 idx2 (i + 1) = Inr (0, -1) \<and>
                    (\<forall>j. i + 1 \<le> j \<and> j < numNbrs node1 \<longrightarrow> \<not> ?hit j)"
        have "\<forall>j. i \<le> j \<and> j < numNbrs node1 \<longrightarrow> \<not> ?hit j"
          using a m step by blast
        with a eq show ?thesis by auto
      qed
    qed
  qed
qed

lemma Connected_loop_0:
  assumes "numNbrs n \<le> int (length (nbrTag n))"
  shows "(\<exists>s. Connected_loop n (domainID t) (index t) 0 = Inr (1, s) \<and> arm_to n s t \<and>
              (\<forall>j. j < s \<longrightarrow> \<not> arm_to n j t)) \<or>
         (Connected_loop n (domainID t) (index t) 0 = Inr (0, -1) \<and> (\<forall>j. \<not> arm_to n j t))"
proof -
  have "0 \<le> (0::int)" by simp
  from Connected_loop_spec[OF assms this, of "domainID t" "index t"]
  show ?thesis
  proof (elim disjE exE conjE)
    fix s
    assume "Connected_loop n (domainID t) (index t) 0 = Inr (1, s)" "0 \<le> s" "s < numNbrs n"
      "domainID t = domainID (nbrTag n ! nat s)" "index t = index (nbrTag n ! nat s)"
      "\<forall>i. 0 \<le> i \<and> i < s \<longrightarrow>
         \<not> (domainID t = domainID (nbrTag n ! nat i) \<and> index t = index (nbrTag n ! nat i))"
    then have "Connected_loop n (domainID t) (index t) 0 = Inr (1, s) \<and> arm_to n s t \<and>
              (\<forall>j. j < s \<longrightarrow> \<not> arm_to n j t)"
      unfolding arm_to_def by metis
    then show ?thesis by blast
  next
    assume "Connected_loop n (domainID t) (index t) 0 = Inr (0, -1)"
      "\<forall>i. 0 \<le> i \<and> i < numNbrs n \<longrightarrow>
         \<not> (domainID t = domainID (nbrTag n ! nat i) \<and> index t = index (nbrTag n ! nat i))"
    then have "Connected_loop n (domainID t) (index t) 0 = Inr (0, -1) \<and> (\<forall>j. \<not> arm_to n j t)"
      unfolding arm_to_def by metis
    then show ?thesis by blast
  qed
qed

lemma Connected_loop_first:
  assumes "numNbrs n \<le> int (length (nbrTag n))" and "arm_to n i t"
    and "\<forall>j. j < i \<longrightarrow> \<not> arm_to n j t"
  shows "Connected_loop n (domainID t) (index t) 0 = Inr (1, i)"
proof -
  from Connected_loop_0[OF assms(1), of t] assms(2)
  obtain s where s: "Connected_loop n (domainID t) (index t) 0 = Inr (1, s)" "arm_to n s t"
    "\<forall>j. j < s \<longrightarrow> \<not> arm_to n j t" by blast
  have "\<not> s < i" using assms(3) s(2) by blast
  moreover have "\<not> i < s" using s(3) assms(2) by blast
  ultimately show ?thesis using s(1) by simp
qed

lemma Connected_loop_none:
  assumes "numNbrs n \<le> int (length (nbrTag n))" and "\<forall>j. \<not> arm_to n j t"
  shows "Connected_loop n (domainID t) (index t) 0 = Inr (0, -1)"
  using Connected_loop_0[OF assms(1), of t] assms(2) by blast

text \<open>\<open>GetArmID\<close> runs the search of \<open>Connected\<close> and returns the index alone.\<close>

lemma GetArmID_loop_Connected_loop:
  "GetArmID_loop n d x k =
     (case Connected_loop n d x k of Inl e \<Rightarrow> Inl e | Inr (c, s) \<Rightarrow> Inr s)"
proof (induction n d x k rule: Connected_loop.induct)
  case (1 node1 dom2 idx2 i)
  show ?case
    apply (subst GetArmID_loop.simps)
    apply (subst Connected_loop.simps)
    using 1 by (auto split: sum.splits)
qed

lemma GetArmID_loop_some:
  assumes "numNbrs n \<le> int (length (nbrTag n))" and "arm_to n k t"
  shows "\<exists>s. GetArmID_loop n (domainID t) (index t) 0 = Inr s \<and> arm_to n s t"
  using Connected_loop_0[OF assms(1), of t] assms(2)
  by (auto simp: GetArmID_loop_Connected_loop)

lemma GetArmID_loop_none:
  assumes "numNbrs n \<le> int (length (nbrTag n))" and "\<forall>j. \<not> arm_to n j t"
  shows "GetArmID_loop n (domainID t) (index t) 0 = Inr (-1)"
  using Connected_loop_none[OF assms] by (simp add: GetArmID_loop_Connected_loop)

lemma GetArmID_loop_total:
  assumes "numNbrs n \<le> int (length (nbrTag n))"
  shows "\<exists>s. GetArmID_loop n (domainID (t::Tag_t)) (index t) 0 = Inr s"
  using Connected_loop_0[OF assms(1), of t]
  by (auto simp: GetArmID_loop_Connected_loop)

text \<open>The example nodes.\<close>

lemma heap_ex_simps: "heap_ex 13 = nodeA_ex" "heap_ex 17 = nodeB_ex" "heap_ex 12 = nodeC_ex"
  by (simp_all add: heap_ex_def)

lemma wf_examples: "wf_Node nodeA_ex" "wf_Node nodeB_ex" "wf_Node nodeC_ex"
  by (simp_all add: wf_Node_def nodeA_ex_def nodeB_ex_def nodeC_ex_def)

lemma arm_A_B: "arm_to nodeA_ex 0 (myTag nodeB_ex)"
  and arm_B_A: "arm_to nodeB_ex 0 (myTag nodeA_ex)"
  and arm_C_A: "arm_to nodeC_ex 3 (myTag nodeA_ex)"
  by (simp_all add: arm_to_def nodeA_ex_def nodeB_ex_def nodeC_ex_def)

lemma no_arm_A_C: "\<not> arm_to nodeA_ex j (myTag nodeC_ex)"
proof
  assume a: "arm_to nodeA_ex j (myTag nodeC_ex)"
  then have "j = 0" by (simp add: arm_to_def nodeA_ex_def)
  with a show False by (simp add: arm_to_def nodeA_ex_def nodeC_ex_def)
qed

lemma first_arm_C_A: "j < 3 \<Longrightarrow> \<not> arm_to nodeC_ex j (myTag nodeA_ex)"
proof
  assume j: "j < 3" and a: "arm_to nodeC_ex j (myTag nodeA_ex)"
  then have "j = 0 \<or> j = 1 \<or> j = 2" by (auto simp: arm_to_def)
  with a show False by (auto simp: arm_to_def nodeA_ex_def nodeC_ex_def)
qed

lemma screw_A_B: "is_screw env_ex (home_ex 0) heap_ex 13 17 0"
  by (simp add: is_screw_def derived_plane_def heap_ex_simps env_ex_def home_ex_def param_ex_def
      nodeA_ex_def nodeB_ex_def ZImage_def NormalizeVec_def cross_def DotProduct_def)

lemma not_screw_C_A: "\<not> is_screw env_ex (home_ex 0) heap_ex 12 13 3"
  by (simp add: is_screw_def derived_plane_def heap_ex_simps env_ex_def home_ex_def param_ex_def
      nodeA_ex_def nodeC_ex_def ZImage_def NormalizeVec_def cross_def DotProduct_def)

section \<open>Ownership arbitration: the claims\<close>

lemma cycle_odd_iff: "((c::int) AND 1 \<noteq> 0) = odd c"
  by (simp add: and_one_eq mod_2_eq_odd)

text \<open>
  Claim C1. For every cycle value, every operation class among separation, collision and
  remesh, and every two distinct domains \<open>d1\<close> and \<open>d2\<close>, exactly one of
  \<open>DomainOwnsSeg (opClass, d1, tag in d2)\<close> and \<open>DomainOwnsSeg (opClass, d2, tag in d1)\<close>
  returns 1: one call returns 1 and the other returns 0.
\<close>

theorem DomainOwnsSeg_exactly_one_owner:
  assumes "opClass \<in> {OPCLASS_SEPARATION, OPCLASS_COLLISION, OPCLASS_REMESH}" and "d1 \<noteq> d2"
  shows "(DomainOwnsSeg home opClass d1 \<lparr>domainID = d2, index = i2\<rparr> = Inr 1 \<and>
          DomainOwnsSeg home opClass d2 \<lparr>domainID = d1, index = i1\<rparr> = Inr 0) \<or>
         (DomainOwnsSeg home opClass d1 \<lparr>domainID = d2, index = i2\<rparr> = Inr 0 \<and>
          DomainOwnsSeg home opClass d2 \<lparr>domainID = d1, index = i1\<rparr> = Inr 1)"
  using assms by (auto simp: DomainOwnsSeg_def c_bool_def split: if_splits)

theorem DomainOwnsSeg_exactly_one_owner_witness:
  "OPCLASS_REMESH \<in> {OPCLASS_SEPARATION, OPCLASS_COLLISION, OPCLASS_REMESH} \<and> (2::int) \<noteq> 5 \<and>
   DomainOwnsSeg (home_ex 7) OPCLASS_REMESH 2 \<lparr>domainID = 5, index = 0\<rparr> = Inr 1 \<and>
   DomainOwnsSeg (home_ex 7) OPCLASS_REMESH 5 \<lparr>domainID = 2, index = 9\<rparr> = Inr 0"
proof -
  have h1: "OPCLASS_REMESH \<in> {OPCLASS_SEPARATION, OPCLASS_COLLISION, OPCLASS_REMESH}" by simp
  have h2: "(2::int) \<noteq> 5" by simp
  have "DomainOwnsSeg (home_ex 7) OPCLASS_REMESH 5 \<lparr>domainID = 2, index = 9\<rparr> \<noteq> Inr 1"
    by (simp add: DomainOwnsSeg_def c_bool_def home_ex_def)
  with DomainOwnsSeg_exactly_one_owner[OF h1 h2, of "home_ex 7" 0 9] h1 h2
  show ?thesis by blast
qed

text \<open>
  Claim C2. For a segment that crosses domains (\<open>thisDomain\<close> differs from the domain of
  \<open>endTag\<close>) and the operation class separation or collision, \<open>DomainOwnsSeg\<close> returns 1
  exactly when \<open>thisDomain\<close> is the higher domain if the cycle is odd, and exactly when it
  is the lower domain if the cycle is even, and it returns 0 otherwise. For the domains 2
  and 5 under collision, domain 2 owns at cycle 4 and domain 5 owns at cycle 5; under
  remesh the two outcomes are inverted.
\<close>

theorem DomainOwnsSeg_parity_rule:
  "((opClass = OPCLASS_SEPARATION \<or> opClass = OPCLASS_COLLISION) \<and>
    thisDomain \<noteq> domainID endTag \<longrightarrow>
      (DomainOwnsSeg home opClass thisDomain endTag = Inr 1 \<or>
       DomainOwnsSeg home opClass thisDomain endTag = Inr 0) \<and>
      (odd (cycle home) \<longrightarrow>
         (DomainOwnsSeg home opClass thisDomain endTag = Inr 1) = (domainID endTag < thisDomain)) \<and>
      (even (cycle home) \<longrightarrow>
         (DomainOwnsSeg home opClass thisDomain endTag = Inr 1) = (thisDomain < domainID endTag))) \<and>
   (cycle home = 4 \<longrightarrow>
      DomainOwnsSeg home OPCLASS_COLLISION 2 \<lparr>domainID = 5, index = i\<rparr> = Inr 1 \<and>
      DomainOwnsSeg home OPCLASS_COLLISION 5 \<lparr>domainID = 2, index = i\<rparr> = Inr 0 \<and>
      DomainOwnsSeg home OPCLASS_REMESH 2 \<lparr>domainID = 5, index = i\<rparr> = Inr 0 \<and>
      DomainOwnsSeg home OPCLASS_REMESH 5 \<lparr>domainID = 2, index = i\<rparr> = Inr 1) \<and>
   (cycle home = 5 \<longrightarrow>
      DomainOwnsSeg home OPCLASS_COLLISION 5 \<lparr>domainID = 2, index = i\<rparr> = Inr 1 \<and>
      DomainOwnsSeg home OPCLASS_COLLISION 2 \<lparr>domainID = 5, index = i\<rparr> = Inr 0 \<and>
      DomainOwnsSeg home OPCLASS_REMESH 5 \<lparr>domainID = 2, index = i\<rparr> = Inr 0 \<and>
      DomainOwnsSeg home OPCLASS_REMESH 2 \<lparr>domainID = 5, index = i\<rparr> = Inr 1)"
proof (intro conjI impI)
  assume a: "(opClass = OPCLASS_SEPARATION \<or> opClass = OPCLASS_COLLISION) \<and>
    thisDomain \<noteq> domainID endTag"
  then show "DomainOwnsSeg home opClass thisDomain endTag = Inr 1 \<or>
       DomainOwnsSeg home opClass thisDomain endTag = Inr 0"
    by (auto simp: DomainOwnsSeg_def c_bool_def split: if_splits)
  assume "odd (cycle home)"
  with a show "(DomainOwnsSeg home opClass thisDomain endTag = Inr 1) = (domainID endTag < thisDomain)"
    by (auto simp: DomainOwnsSeg_def c_bool_def cycle_odd_iff split: if_splits)
next
  assume a: "(opClass = OPCLASS_SEPARATION \<or> opClass = OPCLASS_COLLISION) \<and>
    thisDomain \<noteq> domainID endTag" and "even (cycle home)"
  then show "(DomainOwnsSeg home opClass thisDomain endTag = Inr 1) = (thisDomain < domainID endTag)"
    by (auto simp: DomainOwnsSeg_def c_bool_def cycle_odd_iff split: if_splits)
qed (simp_all add: DomainOwnsSeg_def c_bool_def)

theorem DomainOwnsSeg_parity_rule_witness:
  "DomainOwnsSeg (home_ex 4) OPCLASS_COLLISION 2 \<lparr>domainID = 5, index = 0\<rparr> = Inr 1 \<and>
   DomainOwnsSeg (home_ex 4) OPCLASS_COLLISION 5 \<lparr>domainID = 2, index = 0\<rparr> = Inr 0 \<and>
   DomainOwnsSeg (home_ex 4) OPCLASS_REMESH 2 \<lparr>domainID = 5, index = 0\<rparr> = Inr 0 \<and>
   DomainOwnsSeg (home_ex 4) OPCLASS_REMESH 5 \<lparr>domainID = 2, index = 0\<rparr> = Inr 1 \<and>
   odd (cycle (home_ex 5)) \<and>
   (DomainOwnsSeg (home_ex 5) OPCLASS_SEPARATION 5 \<lparr>domainID = 2, index = 0\<rparr> = Inr 1) =
     ((2::int) < 5)"
proof -
  have c4: "cycle (home_ex 4) = 4" by (simp add: home_ex_def)
  have odd5: "odd (cycle (home_ex 5))" by (simp add: home_ex_def)
  have cross: "(OPCLASS_SEPARATION = OPCLASS_SEPARATION \<or> OPCLASS_SEPARATION = OPCLASS_COLLISION) \<and>
      (5::int) \<noteq> domainID \<lparr>domainID = 2, index = 0\<rparr>" by simp
  from DomainOwnsSeg_parity_rule[of OPCLASS_SEPARATION 5 "\<lparr>domainID = 2, index = 0\<rparr>" "home_ex 4" 0]
    DomainOwnsSeg_parity_rule[of OPCLASS_SEPARATION 5 "\<lparr>domainID = 2, index = 0\<rparr>" "home_ex 5" 0]
    c4 odd5 cross
  show ?thesis by simp
qed

text \<open>
  Claim C3, as the code has it. For two distinct domains and every cycle, \<open>DomainOwnsSeg\<close>
  under remesh returns the negation of what it returns under collision on the same
  inputs; for a segment inside one domain it returns 1 under both classes.
\<close>

theorem DomainOwnsSeg_remesh_negates_collision:
  "(thisDomain \<noteq> domainID endTag \<longrightarrow>
      (\<exists>v. (v = 0 \<or> v = 1) \<and>
           DomainOwnsSeg home OPCLASS_COLLISION thisDomain endTag = Inr v \<and>
           DomainOwnsSeg home OPCLASS_REMESH thisDomain endTag = Inr (1 - v))) \<and>
   (thisDomain = domainID endTag \<longrightarrow>
      DomainOwnsSeg home OPCLASS_COLLISION thisDomain endTag = Inr 1 \<and>
      DomainOwnsSeg home OPCLASS_REMESH thisDomain endTag = Inr 1)"
  by (auto simp: DomainOwnsSeg_def c_bool_def)

theorem DomainOwnsSeg_remesh_negates_collision_witness:
  "(2::int) \<noteq> domainID \<lparr>domainID = 5, index = 0\<rparr> \<and>
   DomainOwnsSeg (home_ex 4) OPCLASS_COLLISION 2 \<lparr>domainID = 5, index = 0\<rparr> = Inr 1 \<and>
   DomainOwnsSeg (home_ex 4) OPCLASS_REMESH 2 \<lparr>domainID = 5, index = 0\<rparr> = Inr 0"
proof -
  have col: "DomainOwnsSeg (home_ex 4) OPCLASS_COLLISION 2 \<lparr>domainID = 5, index = 0\<rparr> = Inr 1"
    by (simp add: DomainOwnsSeg_def c_bool_def home_ex_def)
  from DomainOwnsSeg_remesh_negates_collision[of 2 "\<lparr>domainID = 5, index = 0\<rparr>" "home_ex 4"] col
  show ?thesis by auto
qed

text \<open>
  The claim as the spec states it, for every pair of domains, fails for a segment inside
  one domain: remesh and collision both return 1 for domain 3 and a tag of domain 3.
\<close>

theorem DomainOwnsSeg_remesh_same_domain_counterexample:
  "DomainOwnsSeg (home_ex 4) OPCLASS_REMESH 3 \<lparr>domainID = 3, index = 0\<rparr> = Inr 1 \<and>
   DomainOwnsSeg (home_ex 4) OPCLASS_COLLISION 3 \<lparr>domainID = 3, index = 0\<rparr> = Inr 1"
  by (simp add: DomainOwnsSeg_def)

text \<open>
  Claim C4, as the code has it. With an operation class outside separation, collision and
  remesh, \<open>DomainOwnsSeg\<close> ends in \<open>Fatal\<close> with the message that names the class, and
  returns no verdict, whenever the segment crosses domains; for a segment inside one domain
  it returns 1 before it looks at the class.
\<close>

theorem DomainOwnsSeg_invalid_opClass:
  "(thisDomain \<noteq> domainID endTag \<longrightarrow>
      DomainOwnsSeg home (OPCLASS_invalid v) thisDomain endTag = Inl (Fatal (Invalid_opClass v))) \<and>
   (thisDomain = domainID endTag \<longrightarrow>
      DomainOwnsSeg home (OPCLASS_invalid v) thisDomain endTag = Inr 1)"
  by (simp add: DomainOwnsSeg_def)

theorem DomainOwnsSeg_invalid_opClass_witness:
  "(2::int) \<noteq> domainID \<lparr>domainID = 5, index = 0\<rparr> \<and>
   DomainOwnsSeg (home_ex 4) (OPCLASS_invalid 99) 2 \<lparr>domainID = 5, index = 0\<rparr> =
     Inl (Fatal (Invalid_opClass 99))"
  using DomainOwnsSeg_invalid_opClass[of 2 "\<lparr>domainID = 5, index = 0\<rparr>" "home_ex 4" 99]
  by simp

text \<open>
  The claim as the spec states it, for every pair of domains, fails for a segment inside
  one domain: the class 99 is not looked at, and the call returns 1.
\<close>

theorem DomainOwnsSeg_invalid_opClass_counterexample:
  "DomainOwnsSeg (home_ex 4) (OPCLASS_invalid 99) 3 \<lparr>domainID = 3, index = 0\<rparr> = Inr 1"
  by (simp add: DomainOwnsSeg_def)

section \<open>Tag addressing: the claims\<close>

text \<open>
  Claim C5. \<open>GetNodeFromTag\<close> ends in \<open>Fatal\<close> if and only if the domain or the index of
  the tag is negative. For a tag with non-negative components, in a \<open>Home_t\<close> whose key
  tables are as long as their high-water marks say and that has a slot for the tag's domain,
  it returns without error: for a local tag the entry of \<open>nodeKeys\<close> when the index is
  below \<open>newNodeKeyPtr\<close> (\<open>NULL\<close> when the slot is empty) and \<open>NULL\<close> otherwise; for a
  remote tag \<open>NULL\<close> when the domain has no cache or the index is at or beyond
  \<open>maxTagIndex\<close>, and the entry of the cache otherwise (\<open>NULL\<close> when the slot is
  empty). The function returns a pointer and nothing else: no state is changed.
\<close>

theorem GetNodeFromTag_fatal_iff_and_lookup:
  "((\<exists>m. GetNodeFromTag home tag = Inl (Fatal m)) \<longleftrightarrow> (domainID tag < 0 \<or> index tag < 0)) \<and>
   (wf_tables home \<and> tag_in_tables home tag \<and> 0 \<le> domainID tag \<and> 0 \<le> index tag \<longrightarrow>
      GetNodeFromTag home tag =
        Inr (if domainID tag = myDomain home then
               (if index tag < newNodeKeyPtr home then nodeKeys home ! nat (index tag) else None)
             else
               (case remoteDomainKeys home ! nat (domainID tag) of
                  None \<Rightarrow> None
                | Some rd \<Rightarrow>
                    if index tag < maxTagIndex rd then remote_nodeKeys rd ! nat (index tag)
                    else None)))"
proof (intro conjI impI)
  show "(\<exists>m. GetNodeFromTag home tag = Inl (Fatal m)) \<longleftrightarrow> (domainID tag < 0 \<or> index tag < 0)"
    by (auto simp: GetNodeFromTag_def bindE_def arr_read_def split: sum.splits option.splits if_splits)
next
  assume a: "wf_tables home \<and> tag_in_tables home tag \<and> 0 \<le> domainID tag \<and> 0 \<le> index tag"
  show "GetNodeFromTag home tag =
        Inr (if domainID tag = myDomain home then
               (if index tag < newNodeKeyPtr home then nodeKeys home ! nat (index tag) else None)
             else
               (case remoteDomainKeys home ! nat (domainID tag) of
                  None \<Rightarrow> None
                | Some rd \<Rightarrow>
                    if index tag < maxTagIndex rd then remote_nodeKeys rd ! nat (index tag)
                    else None))"
  proof (cases "domainID tag = myDomain home")
    case True
    with a show ?thesis
      by (auto simp: GetNodeFromTag_def bindE_def arr_read_def wf_tables_def)
  next
    case False
    with a have d: "0 \<le> domainID tag" "domainID tag < int (length (remoteDomainKeys home))"
      by (simp_all add: tag_in_tables_def)
    from d have "nat (domainID tag) < length (remoteDomainKeys home)" by simp
    with a have w: "wf_RemoteDomain (remoteDomainKeys home ! nat (domainID tag))"
      by (simp add: wf_tables_def list_all_length)
    show ?thesis
      using False a w d
      by (auto simp: GetNodeFromTag_def bindE_def arr_read_def wf_RemoteDomain_def
          split: option.splits)
  qed
qed

theorem GetNodeFromTag_fatal_iff_and_lookup_witness:
  "wf_tables (home_ex 0) \<and>
   tag_in_tables (home_ex 0) \<lparr>domainID = 1, index = 7\<rparr> \<and>
   GetNodeFromTag (home_ex 0) \<lparr>domainID = 1, index = 7\<rparr> = Inr (Some 17) \<and>
   GetNodeFromTag (home_ex 0) \<lparr>domainID = 1, index = 3\<rparr> = Inr None \<and>
   GetNodeFromTag (home_ex 0) \<lparr>domainID = 1, index = 8\<rparr> = Inr None \<and>
   GetNodeFromTag (home_ex 0) \<lparr>domainID = 2, index = 0\<rparr> = Inr None \<and>
   GetNodeFromTag (home_ex 0) \<lparr>domainID = 0, index = 3\<rparr> = Inr (Some 13) \<and>
   GetNodeFromTag (home_ex 0) \<lparr>domainID = 0, index = 1\<rparr> = Inr None \<and>
   GetNodeFromTag (home_ex 0) \<lparr>domainID = 0, index = 4\<rparr> = Inr None \<and>
   (\<exists>m. GetNodeFromTag (home_ex 0) \<lparr>domainID = 0, index = -1\<rparr> = Inl (Fatal m))"
proof -
  have w: "wf_tables (home_ex 0)"
    by (simp add: wf_tables_def wf_RemoteDomain_def home_ex_def)
  have t: "tag_in_tables (home_ex 0) \<lparr>domainID = 1, index = 7\<rparr>"
    "tag_in_tables (home_ex 0) \<lparr>domainID = 1, index = 3\<rparr>"
    "tag_in_tables (home_ex 0) \<lparr>domainID = 1, index = 8\<rparr>"
    "tag_in_tables (home_ex 0) \<lparr>domainID = 2, index = 0\<rparr>"
    "tag_in_tables (home_ex 0) \<lparr>domainID = 0, index = 3\<rparr>"
    "tag_in_tables (home_ex 0) \<lparr>domainID = 0, index = 1\<rparr>"
    "tag_in_tables (home_ex 0) \<lparr>domainID = 0, index = 4\<rparr>"
    by (simp_all add: tag_in_tables_def home_ex_def)
  note inst = GetNodeFromTag_fatal_iff_and_lookup[of "home_ex 0"]
  from inst[of "\<lparr>domainID = 1, index = 7\<rparr>"] inst[of "\<lparr>domainID = 1, index = 3\<rparr>"]
    inst[of "\<lparr>domainID = 1, index = 8\<rparr>"] inst[of "\<lparr>domainID = 2, index = 0\<rparr>"]
    inst[of "\<lparr>domainID = 0, index = 3\<rparr>"] inst[of "\<lparr>domainID = 0, index = 1\<rparr>"]
    inst[of "\<lparr>domainID = 0, index = 4\<rparr>"] inst[of "\<lparr>domainID = 0, index = -1\<rparr>"] w t
  show ?thesis by (simp add: home_ex_def)
qed

section \<open>Neighbors: the claim\<close>

text \<open>
  From the slot \<open>i\<close> on, with \<open>j\<close> valid arms counted and \<open>j < n\<close>, the loop resolves
  the valid arm number \<open>n - j - 1\<close> among the slots from \<open>i\<close> to \<open>numNbrs\<close>, and prints
  and returns \<open>NULL\<close> when there are not that many.
\<close>

lemma GetNeighborNode_loop_spec:
  assumes "numNbrs (hp a) \<le> int (length (nbrTag (hp a)))" and "0 \<le> i" and "j < n"
  shows "GetNeighborNode_loop home hp a n i j =
     (let vs = filter (\<lambda>t. 0 \<le> domainID t)
                 (drop (nat i) (take (nat (numNbrs (hp a))) (nbrTag (hp a))))
      in if nat (n - j - 1) < length vs then
           (case GetNodeFromTag home (vs ! nat (n - j - 1)) of
              Inl e \<Rightarrow> Inl e
            | Inr nb \<Rightarrow> Inr (nb, []))
         else Inr (None, [GetNeighborNode_returning_NULL
                            (domainID (myTag (hp a))) (index (myTag (hp a))) n,
                          PrintNode_dump (hp a)]))"
  using assms
proof (induction home hp a n i j rule: GetNeighborNode_loop.induct)
  case (1 home hp a n i j)
  let ?N = "nat (numNbrs (hp a))"
  let ?tags = "nbrTag (hp a)"
  show ?case
  proof (cases "i < numNbrs (hp a)")
    case False
    with 1 have "drop (nat i) (take ?N ?tags) = []" by simp
    then show ?thesis
      using False by (subst GetNeighborNode_loop.simps) (simp add: PrintNode_def)
  next
    case True
    with 1 have rd: "arr_read ?tags i = Inr (?tags ! nat i)"
      by (simp add: arr_read_in)
    from True 1 have len: "nat i < length (take ?N ?tags)" by simp
    from True 1 have nth: "take ?N ?tags ! nat i = ?tags ! nat i" by simp
    from 1 have suc: "nat (i + 1) = Suc (nat i)" by simp
    have dr: "drop (nat i) (take ?N ?tags) = ?tags ! nat i # drop (nat (i + 1)) (take ?N ?tags)"
      using Cons_nth_drop_Suc[OF len] nth suc by simp
    define j' where "j' = (if 0 \<le> domainID (?tags ! nat i) then j + 1 else j)"
    show ?thesis
    proof (cases "j' = n")
      case eq: True
      with 1 have v: "0 \<le> domainID (?tags ! nat i)" "n - j - 1 = 0"
        by (auto simp: j'_def split: if_splits)
      show ?thesis
        using True rd eq v
        by (subst GetNeighborNode_loop.simps) (simp add: dr j'_def Let_def)
    next
      case ne: False
      with 1 have lt: "j' < n" by (auto simp: j'_def split: if_splits)
      have "0 \<le> i + 1" using 1 by simp
      from "1.IH"[OF True rd j'_def ne "1.prems"(1) this lt]
      have IH: "GetNeighborNode_loop home hp a n (i + 1) j' =
        (let vs = filter (\<lambda>t. 0 \<le> domainID t) (drop (nat (i + 1)) (take ?N ?tags))
         in if nat (n - j' - 1) < length vs then
           (case GetNodeFromTag home (vs ! nat (n - j' - 1)) of
              Inl e \<Rightarrow> Inl e
            | Inr nb \<Rightarrow> Inr (nb, []))
         else Inr (None, [GetNeighborNode_returning_NULL
                            (domainID (myTag (hp a))) (index (myTag (hp a))) n,
                          PrintNode_dump (hp a)]))" .
      have step: "GetNeighborNode_loop home hp a n i j = GetNeighborNode_loop home hp a n (i + 1) j'"
        using True rd ne by (subst GetNeighborNode_loop.simps) (simp add: j'_def Let_def)
      show ?thesis
      proof (cases "0 \<le> domainID (?tags ! nat i)")
        case v: True
        then have j': "j' = j + 1" by (simp add: j'_def)
        with lt have "nat (n - j - 1) = Suc (nat (n - j' - 1))" by simp
        then show ?thesis
          unfolding step IH using v j' by (simp add: dr Let_def)
      next
        case v: False
        then have j': "j' = j" by (simp add: j'_def)
        show ?thesis
          unfolding step IH using v j' by (simp add: dr Let_def)
      qed
    qed
  qed
qed

text \<open>
  Claim C9. For a node whose arm list may hold invalidated slots (the domain of the
  neighbor tag is negative) and every \<open>n \<ge> 0\<close>, \<open>GetNeighborNode (node, n)\<close> skips the
  invalid slots and resolves, through \<open>GetNodeFromTag\<close>, the tag of the valid arm number
  \<open>n\<close> (counted from 0), wherever that arm sits; when the list has fewer than \<open>n + 1\<close>
  valid arms it prints its message and the dump of the node and returns \<open>NULL\<close>.
\<close>

theorem GetNeighborNode_nth_valid:
  "wf_Node (hp a) \<and> 0 \<le> n \<longrightarrow>
     GetNeighborNode home hp (Some a) n =
       (if nat n < length (valid_nbrs (hp a)) then
          (case GetNodeFromTag home (valid_nbrs (hp a) ! nat n) of
             Inl e \<Rightarrow> Inl e
           | Inr nb \<Rightarrow> Inr (nb, []))
        else Inr (None, [GetNeighborNode_returning_NULL
                           (domainID (myTag (hp a))) (index (myTag (hp a))) n,
                         PrintNode_dump (hp a)]))"
proof
  assume a: "wf_Node (hp a) \<and> 0 \<le> n"
  then have b: "numNbrs (hp a) \<le> int (length (nbrTag (hp a)))" by (simp add: wf_Node_def)
  have "(0::int) \<le> 0" by simp
  moreover have "-1 < n" using a by simp
  ultimately show "GetNeighborNode home hp (Some a) n =
       (if nat n < length (valid_nbrs (hp a)) then
          (case GetNodeFromTag home (valid_nbrs (hp a) ! nat n) of
             Inl e \<Rightarrow> Inl e
           | Inr nb \<Rightarrow> Inr (nb, []))
        else Inr (None, [GetNeighborNode_returning_NULL
                           (domainID (myTag (hp a))) (index (myTag (hp a))) n,
                         PrintNode_dump (hp a)]))"
    using b GetNeighborNode_loop_spec[where hp = hp and a = a and i = 0 and j = "-1" and n = n
        and home = home]
    by (simp add: GetNeighborNode_def valid_nbrs_def Let_def)
qed

text \<open>
  Node C: the valid arm number 1 is the arm to (0,3) in slot 3, while slot 1 holds the arm
  to (1,7); there is no valid arm number 2.
\<close>

theorem GetNeighborNode_nth_valid_witness:
  "wf_Node (heap_ex 12) \<and>
   GetNeighborNode (home_ex 0) heap_ex (Some 12) 1 = Inr (Some 13, []) \<and>
   nbrTag (heap_ex 12) ! 1 = \<lparr>domainID = 1, index = 7\<rparr> \<and>
   nbrTag (heap_ex 12) ! 3 = \<lparr>domainID = 0, index = 3\<rparr> \<and>
   GetNeighborNode (home_ex 0) heap_ex (Some 12) 2 =
     Inr (None, [GetNeighborNode_returning_NULL 0 2 2, PrintNode_dump nodeC_ex])"
proof -
  have w: "wf_Node (heap_ex 12)" by (simp add: heap_ex_simps wf_examples)
  have v: "valid_nbrs (heap_ex 12) = [\<lparr>domainID = 1, index = 7\<rparr>, \<lparr>domainID = 0, index = 3\<rparr>]"
    by (simp add: valid_nbrs_def heap_ex_def nodeC_ex_def)
  have g: "GetNodeFromTag (home_ex 0) \<lparr>domainID = 0, index = 3\<rparr> = Inr (Some 13)"
    by (simp add: GetNodeFromTag_def home_ex_def bindE_def arr_read_def)
  from GetNeighborNode_nth_valid[of heap_ex 12 1 "home_ex 0"]
    GetNeighborNode_nth_valid[of heap_ex 12 2 "home_ex 0"] w
  show ?thesis by (simp add: v g) (simp add: heap_ex_simps nodeC_ex_def)
qed

section \<open>Operation list: the claim\<close>











section \<open>Segment forces: the claim\<close>




text \<open>In exact arithmetic the accumulated total is the sum of the list.\<close>

lemma foldl_plus_sum_list: "foldl (+) a xs = a + sum_list (xs :: 'a::monoid_add list)"
  by (induction xs arbitrary: a) (simp_all add: add.assoc)









section \<open>Glide planes: the claims\<close>

lemma store_plane_in:
  assumes "0 \<le> i" and "i < int (length (nx (hp a)))" and "i < int (length (ny (hp a)))"
    and "i < int (length (nz (hp a)))"
  shows "store_plane hp a i (pX, pY, pZ) =
           Inr (hp(a := (hp a)\<lparr>nx := (nx (hp a))[nat i := pX], ny := (ny (hp a))[nat i := pY],
                                 nz := (nz (hp a))[nat i := pZ]\<rparr>))"
  using assms by (simp add: store_plane_def bindE_def arr_write_in)

lemma store_plane_neg: "i < 0 \<Longrightarrow> store_plane hp a i p = Inl OutOfBounds"
  by (cases p) (simp add: store_plane_def bindE_def arr_write_def)

lemma store_both_in:
  assumes "a1 \<noteq> a2" and "wf_Node (hp a1)" and "wf_Node (hp a2)"
    and "0 \<le> s1" and "s1 < numNbrs (hp a1)" and "0 \<le> s2" and "s2 < numNbrs (hp a2)"
  shows "\<exists>hp'. store_both hp a1 s1 a2 s2 p = Inr hp'"
proof -
  obtain pX pY pZ where p: "p = (pX, pY, pZ)" by (cases p) auto
  from assms have 1: "store_plane hp a1 s1 p =
      Inr (hp(a1 := (hp a1)\<lparr>nx := (nx (hp a1))[nat s1 := pX], ny := (ny (hp a1))[nat s1 := pY],
                                 nz := (nz (hp a1))[nat s1 := pZ]\<rparr>))"
    unfolding p by (intro store_plane_in) (simp_all add: wf_Node_def)
  from assms have "\<exists>hp'. store_plane
      (hp(a1 := (hp a1)\<lparr>nx := (nx (hp a1))[nat s1 := pX], ny := (ny (hp a1))[nat s1 := pY],
                                 nz := (nz (hp a1))[nat s1 := pZ]\<rparr>)) a2 s2 p = Inr hp'"
    unfolding p by (subst store_plane_in) (simp_all add: wf_Node_def)
  with 1 show ?thesis by (simp add: store_both_def bindE_def)
qed

lemma store_both_neg:
  assumes "wf_Node (hp a1)" and "0 \<le> s1" and "s1 < numNbrs (hp a1)" and "s2 < 0"
  shows "store_both hp a1 s1 a2 s2 p = Inl OutOfBounds"
proof -
  obtain pX pY pZ where p: "p = (pX, pY, pZ)" by (cases p) auto
  from assms have 1: "store_plane hp a1 s1 p =
      Inr (hp(a1 := (hp a1)\<lparr>nx := (nx (hp a1))[nat s1 := pX], ny := (ny (hp a1))[nat s1 := pY],
                                 nz := (nz (hp a1))[nat s1 := pZ]\<rparr>))"
    unfolding p by (intro store_plane_in) (simp_all add: wf_Node_def)
  show ?thesis using assms(4) by (simp add: store_both_def 1 bindE_def store_plane_neg)
qed

text \<open>
  Claim C8. \<open>RecalcSegGlidePlane (node1, node2, ignoreIfScrew)\<close> returns the store of
  nodes as it was, every field of every node unchanged, when \<open>node1\<close> or \<open>node2\<close> is
  \<open>NULL\<close>, when both are the same node, and when \<open>node1\<close> has no arm that ends at
  \<open>node2\<close>; and also when the normal derived for the connecting arm has a dot product with
  itself below 1/1000 and \<open>ignoreIfScrew\<close> is set, so that the glide-plane normals stored
  in both nodes stay as they were.
\<close>

theorem RecalcSegGlidePlane_frame:
  "(node1 = None \<or> node2 = None \<or> node1 = node2 \<longrightarrow>
      RecalcSegGlidePlane env home hp node1 node2 ignoreIfScrew = Inr hp) \<and>
   (wf_Node (hp a1) \<and> (\<forall>i. \<not> arm_to (hp a1) i (myTag (hp a2))) \<longrightarrow>
      RecalcSegGlidePlane env home hp (Some a1) (Some a2) ignoreIfScrew = Inr hp) \<and>
   (wf_Node (hp a1) \<and> wf_Node (hp a2) \<and> arm_to (hp a1) i (myTag (hp a2)) \<and>
    (\<forall>j. j < i \<longrightarrow> \<not> arm_to (hp a1) j (myTag (hp a2))) \<and>
    is_screw env home hp a1 a2 i \<and> ignoreIfScrew \<noteq> 0 \<longrightarrow>
      RecalcSegGlidePlane env home hp (Some a1) (Some a2) ignoreIfScrew = Inr hp)"
proof (intro conjI impI)
  assume "node1 = None \<or> node2 = None \<or> node1 = node2"
  then show "RecalcSegGlidePlane env home hp node1 node2 ignoreIfScrew = Inr hp"
    by (auto simp: RecalcSegGlidePlane_def split: option.splits)
next
  assume a: "wf_Node (hp a1) \<and> (\<forall>i. \<not> arm_to (hp a1) i (myTag (hp a2)))"
  then have "Connected hp (Some a1) (Some a2) = Inr (0, -1)"
    by (simp add: Connected_def Connected_loop_none wf_Node_def)
  then show "RecalcSegGlidePlane env home hp (Some a1) (Some a2) ignoreIfScrew = Inr hp"
    by (simp add: RecalcSegGlidePlane_def bindE_def)
next
  assume a: "wf_Node (hp a1) \<and> wf_Node (hp a2) \<and> arm_to (hp a1) i (myTag (hp a2)) \<and>
    (\<forall>j. j < i \<longrightarrow> \<not> arm_to (hp a1) j (myTag (hp a2))) \<and>
    is_screw env home hp a1 a2 i \<and> ignoreIfScrew \<noteq> 0"
  then have c: "Connected hp (Some a1) (Some a2) = Inr (1, i)"
    by (simp add: Connected_def Connected_loop_first wf_Node_def)
  from a obtain s2 where g: "GetArmID home hp (Some a2) (Some a1) = Inr s2"
    using GetArmID_loop_total[of "hp a2" "myTag (hp a1)"]
    by (auto simp: GetArmID_def wf_Node_def)
  from a have i: "0 \<le> i" "i < numNbrs (hp a1)" by (simp_all add: arm_to_def)
  with a have rd: "arr_read (burgX (hp a1)) i = Inr (burgX (hp a1) ! nat i)"
    "arr_read (burgY (hp a1)) i = Inr (burgY (hp a1) ! nat i)"
    "arr_read (burgZ (hp a1)) i = Inr (burgZ (hp a1) ! nat i)"
    by (simp_all add: arr_read_in wf_Node_def)
  from a have scr: "DotProduct (derived_plane env home hp a1 a2 i)
      (derived_plane env home hp a1 a2 i) < 1 / 1000" and ig: "ignoreIfScrew \<noteq> 0"
    by (simp_all add: is_screw_def)
  show "RecalcSegGlidePlane env home hp (Some a1) (Some a2) ignoreIfScrew = Inr hp"
  proof (cases "a1 = a2")
    case True
    then show ?thesis by (simp add: RecalcSegGlidePlane_def)
  next
    case False
    then show ?thesis
      using scr ig unfolding derived_plane_def
      by (simp add: RecalcSegGlidePlane_def bindE_def c g rd Let_def)
  qed
qed

text \<open>
  Three calls: with \<open>node1 = NULL\<close>; on node A and node C, which A has no arm to; and on
  node A and node B, whose segment is screw, with \<open>ignoreIfScrew\<close> set.
\<close>

theorem RecalcSegGlidePlane_frame_witness:
  "RecalcSegGlidePlane env_ex (home_ex 0) heap_ex None (Some 17) 1 = Inr heap_ex \<and>
   wf_Node (heap_ex 13) \<and> (\<forall>i. \<not> arm_to (heap_ex 13) i (myTag (heap_ex 12))) \<and>
   RecalcSegGlidePlane env_ex (home_ex 0) heap_ex (Some 13) (Some 12) 0 = Inr heap_ex \<and>
   wf_Node (heap_ex 17) \<and> arm_to (heap_ex 13) 0 (myTag (heap_ex 17)) \<and>
   is_screw env_ex (home_ex 0) heap_ex 13 17 0 \<and>
   RecalcSegGlidePlane env_ex (home_ex 0) heap_ex (Some 13) (Some 17) 1 = Inr heap_ex"
proof -
  have w: "wf_Node (heap_ex 13)" "wf_Node (heap_ex 17)" by (simp_all add: heap_ex_simps wf_examples)
  have none: "\<forall>i. \<not> arm_to (heap_ex 13) i (myTag (heap_ex 12))"
    by (simp add: heap_ex_simps no_arm_A_C)
  have arm: "arm_to (heap_ex 13) 0 (myTag (heap_ex 17))" by (simp add: heap_ex_simps arm_A_B)
  have first: "\<forall>j. j < 0 \<longrightarrow> \<not> arm_to (heap_ex 13) j (myTag (heap_ex 17))"
    by (simp add: arm_to_def)
  note inst = RecalcSegGlidePlane_frame[where env = env_ex and home = "home_ex 0" and hp = heap_ex]
  from inst[where ?node1.0 = None and ?node2.0 = "Some 17" and ignoreIfScrew = 1]
  have 1: "RecalcSegGlidePlane env_ex (home_ex 0) heap_ex None (Some 17) 1 = Inr heap_ex"
    by simp
  from inst[where ?a1.0 = 13 and ?a2.0 = 12 and ignoreIfScrew = 0] w none
  have 2: "RecalcSegGlidePlane env_ex (home_ex 0) heap_ex (Some 13) (Some 12) 0 = Inr heap_ex"
    by blast
  from inst[where ?a1.0 = 13 and ?a2.0 = 17 and i = 0 and ignoreIfScrew = 1] w arm first screw_A_B
  have 3: "RecalcSegGlidePlane env_ex (home_ex 0) heap_ex (Some 13) (Some 17) 1 = Inr heap_ex"
    by simp
  from 1 2 3 w none arm screw_A_B show ?thesis by blast
qed

text \<open>
  Claim C10. In \<open>RecalcSegGlidePlane\<close>, when \<open>node2\<close> has an arm whose neighbor tag is the
  tag of \<open>node1\<close>, the index \<open>node2SegID = GetArmID (home, node2, node1)\<close> is not
  negative and is below the arm count of \<open>node2\<close>, so it lies within the three
  glide-plane arrays of \<open>node2\<close>, and the call ends without an access out of range. The
  code does not test \<open>node2SegID\<close>: when \<open>node1\<close> has an arm to \<open>node2\<close>, \<open>node2\<close> has
  none back and the function does not return early, \<open>GetArmID\<close> returns -1 and the
  stores into \<open>node2\<close> fall out of range.
\<close>

theorem RecalcSegGlidePlane_node2_index:
  "(wf_Node (hp a2) \<and> arm_to (hp a2) k (myTag (hp a1)) \<longrightarrow>
      (\<exists>s2. GetArmID home hp (Some a2) (Some a1) = Inr s2 \<and> 0 \<le> s2 \<and> s2 < numNbrs (hp a2) \<and>
            s2 < int (length (nx (hp a2))) \<and> s2 < int (length (ny (hp a2))) \<and>
            s2 < int (length (nz (hp a2)))) \<and>
      (wf_Node (hp a1) \<and> a1 \<noteq> a2 \<longrightarrow>
         (\<exists>hp'. RecalcSegGlidePlane env home hp (Some a1) (Some a2) ignoreIfScrew = Inr hp'))) \<and>
   (wf_Node (hp a1) \<and> wf_Node (hp a2) \<and> a1 \<noteq> a2 \<and> arm_to (hp a1) i (myTag (hp a2)) \<and>
    (\<forall>j. j < i \<longrightarrow> \<not> arm_to (hp a1) j (myTag (hp a2))) \<and>
    (\<forall>j. \<not> arm_to (hp a2) j (myTag (hp a1))) \<and>
    \<not> (is_screw env home hp a1 a2 i \<and> ignoreIfScrew \<noteq> 0) \<longrightarrow>
      GetArmID home hp (Some a2) (Some a1) = Inr (-1) \<and>
      RecalcSegGlidePlane env home hp (Some a1) (Some a2) ignoreIfScrew = Inl OutOfBounds)"
proof (intro conjI impI)
  assume a: "wf_Node (hp a2) \<and> arm_to (hp a2) k (myTag (hp a1))"
  then obtain s2 where s2: "GetArmID home hp (Some a2) (Some a1) = Inr s2"
      "arm_to (hp a2) s2 (myTag (hp a1))"
    using GetArmID_loop_some[of "hp a2" k "myTag (hp a1)"]
    by (auto simp: GetArmID_def wf_Node_def)
  from s2(2) a have b: "0 \<le> s2" "s2 < numNbrs (hp a2)" "s2 < int (length (nx (hp a2)))"
    "s2 < int (length (ny (hp a2)))" "s2 < int (length (nz (hp a2)))"
    by (simp_all add: arm_to_def wf_Node_def)
  with s2(1) show "\<exists>s2. GetArmID home hp (Some a2) (Some a1) = Inr s2 \<and> 0 \<le> s2 \<and>
      s2 < numNbrs (hp a2) \<and> s2 < int (length (nx (hp a2))) \<and> s2 < int (length (ny (hp a2))) \<and>
      s2 < int (length (nz (hp a2)))"
    by blast
  assume w: "wf_Node (hp a1) \<and> a1 \<noteq> a2"
  from w have bnd: "numNbrs (hp a1) \<le> int (length (nbrTag (hp a1)))" by (simp add: wf_Node_def)
  from Connected_loop_0[OF bnd, of "myTag (hp a2)"]
  show "\<exists>hp'. RecalcSegGlidePlane env home hp (Some a1) (Some a2) ignoreIfScrew = Inr hp'"
  proof (elim disjE exE conjE)
    fix s1
    assume c: "Connected_loop (hp a1) (domainID (myTag (hp a2))) (index (myTag (hp a2))) 0 = Inr (1, s1)"
      and s1: "arm_to (hp a1) s1 (myTag (hp a2))"
    from s1 have i: "0 \<le> s1" "s1 < numNbrs (hp a1)" by (simp_all add: arm_to_def)
    with w have rd: "arr_read (burgX (hp a1)) s1 = Inr (burgX (hp a1) ! nat s1)"
      "arr_read (burgY (hp a1)) s1 = Inr (burgY (hp a1) ! nat s1)"
      "arr_read (burgZ (hp a1)) s1 = Inr (burgZ (hp a1) ! nat s1)"
      by (simp_all add: arr_read_in wf_Node_def)
    have st: "\<And>p. \<exists>hp'. store_both hp a1 s1 a2 s2 p = Inr hp'"
      using store_both_in[of a1 a2 hp s1 s2] w a i b by blast
    show ?thesis
      using w st
      by (simp add: RecalcSegGlidePlane_def Connected_def bindE_def c s2(1) rd Let_def)
  next
    assume "Connected_loop (hp a1) (domainID (myTag (hp a2))) (index (myTag (hp a2))) 0 = Inr (0, -1)"
    then show ?thesis
      using w by (simp add: RecalcSegGlidePlane_def Connected_def bindE_def)
  qed
next
  assume a: "wf_Node (hp a1) \<and> wf_Node (hp a2) \<and> a1 \<noteq> a2 \<and> arm_to (hp a1) i (myTag (hp a2)) \<and>
    (\<forall>j. j < i \<longrightarrow> \<not> arm_to (hp a1) j (myTag (hp a2))) \<and>
    (\<forall>j. \<not> arm_to (hp a2) j (myTag (hp a1))) \<and>
    \<not> (is_screw env home hp a1 a2 i \<and> ignoreIfScrew \<noteq> 0)"
  then show g: "GetArmID home hp (Some a2) (Some a1) = Inr (-1)"
    by (simp add: GetArmID_def GetArmID_loop_none wf_Node_def)
  from a have c: "Connected hp (Some a1) (Some a2) = Inr (1, i)"
    by (simp add: Connected_def Connected_loop_first wf_Node_def)
  from a have i: "0 \<le> i" "i < numNbrs (hp a1)" by (simp_all add: arm_to_def)
  with a have rd: "arr_read (burgX (hp a1)) i = Inr (burgX (hp a1) ! nat i)"
    "arr_read (burgY (hp a1)) i = Inr (burgY (hp a1) ! nat i)"
    "arr_read (burgZ (hp a1)) i = Inr (burgZ (hp a1) ! nat i)"
    by (simp_all add: arr_read_in wf_Node_def)
  have st: "\<And>p. store_both hp a1 i a2 (-1) p = Inl OutOfBounds"
    using store_both_neg[of hp a1 i "-1"] a i by simp
  from a have ns: "\<not> (DotProduct (derived_plane env home hp a1 a2 i)
      (derived_plane env home hp a1 a2 i) < 1 / 1000 \<and> ignoreIfScrew \<noteq> 0)"
    by (simp add: is_screw_def)
  show "RecalcSegGlidePlane env home hp (Some a1) (Some a2) ignoreIfScrew = Inl OutOfBounds"
    using a ns st unfolding derived_plane_def
    by (simp add: RecalcSegGlidePlane_def bindE_def c g rd Let_def)
qed

text \<open>
  Node A and node B point at each other: the index for B is 0 and the call stores into
  both. Node C has an arm to node A, node A has none back, and the segment is not screw:
  the index for A is -1 and the call runs out of range.
\<close>

theorem RecalcSegGlidePlane_node2_index_witness:
  "wf_Node (heap_ex 17) \<and> arm_to (heap_ex 17) 0 (myTag (heap_ex 13)) \<and>
   (\<exists>s2. GetArmID (home_ex 0) heap_ex (Some 17) (Some 13) = Inr s2 \<and> 0 \<le> s2 \<and>
         s2 < numNbrs (heap_ex 17)) \<and>
   (\<exists>hp'. RecalcSegGlidePlane env_ex (home_ex 0) heap_ex (Some 13) (Some 17) 0 = Inr hp') \<and>
   (\<forall>j. \<not> arm_to (heap_ex 13) j (myTag (heap_ex 12))) \<and>
   arm_to (heap_ex 12) 3 (myTag (heap_ex 13)) \<and>
   GetArmID (home_ex 0) heap_ex (Some 13) (Some 12) = Inr (-1) \<and>
   RecalcSegGlidePlane env_ex (home_ex 0) heap_ex (Some 12) (Some 13) 1 = Inl OutOfBounds"
proof -
  have w: "wf_Node (heap_ex 13)" "wf_Node (heap_ex 17)" "wf_Node (heap_ex 12)"
    by (simp_all add: heap_ex_simps wf_examples)
  have armBA: "arm_to (heap_ex 17) 0 (myTag (heap_ex 13))" by (simp add: heap_ex_simps arm_B_A)
  have armCA: "arm_to (heap_ex 12) 3 (myTag (heap_ex 13))" by (simp add: heap_ex_simps arm_C_A)
  have first: "\<forall>j. j < 3 \<longrightarrow> \<not> arm_to (heap_ex 12) j (myTag (heap_ex 13))"
    by (simp add: heap_ex_simps first_arm_C_A)
  have none: "\<forall>j. \<not> arm_to (heap_ex 13) j (myTag (heap_ex 12))"
    by (simp add: heap_ex_simps no_arm_A_C)
  have ns: "\<not> (is_screw env_ex (home_ex 0) heap_ex 12 13 3 \<and> (1::int) \<noteq> 0)"
    by (simp add: not_screw_C_A)
  note inst = RecalcSegGlidePlane_node2_index[where env = env_ex and home = "home_ex 0"
      and hp = heap_ex]
  from inst[where ?a1.0 = 13 and ?a2.0 = 17 and k = 0 and ignoreIfScrew = 0] w armBA
  have 1: "(\<exists>s2. GetArmID (home_ex 0) heap_ex (Some 17) (Some 13) = Inr s2 \<and> 0 \<le> s2 \<and>
         s2 < numNbrs (heap_ex 17)) \<and>
     (\<exists>hp'. RecalcSegGlidePlane env_ex (home_ex 0) heap_ex (Some 13) (Some 17) 0 = Inr hp')"
    by fastforce
  from inst[where ?a1.0 = 12 and ?a2.0 = 13 and i = 3 and ignoreIfScrew = 1] w armCA first none ns
  have 2: "GetArmID (home_ex 0) heap_ex (Some 13) (Some 12) = Inr (-1) \<and>
     RecalcSegGlidePlane env_ex (home_ex 0) heap_ex (Some 12) (Some 13) 1 = Inl OutOfBounds"
    by simp
  from 1 2 w armBA armCA none show ?thesis by blast
qed

end
